theory Spec2Isabelle
  imports Main "HOL-Library.Word"
begin

section \<open>The camera session of camera_linux.cpp\<close>

text \<open>
  The file \<^verbatim>\<open>camera/camera_linux.cpp\<close> drives one libcamera capture session through six
  file-level variables. libcamera itself is an external collaborator: every call into it is
  modelled by a field of the device (or manager) record that says what the call returns, and
  every call that the code makes is appended to a trace of events, in program order.
\<close>

subsection \<open>Outcomes of a call\<close>

text \<open>
  A function of the file either returns, calls \<^verbatim>\<open>abort()\<close>, leaves through a C++ exception
  (\<^verbatim>\<open>std::vector::at\<close>, \<^verbatim>\<open>std::optional::value\<close>), or has no defined behaviour (a null
  smart pointer is dereferenced, \<^verbatim>\<open>operator[]\<close> reads past the end).
\<close>

datatype exception = Out_of_range | Bad_optional_access

datatype undefined_behaviour = Null_dereference | Index_out_of_bounds

datatype 'a outcome =
    Returned 'a
  | Aborted
  | Threw exception
  | Undefined undefined_behaviour

subsection \<open>Data of camera_linux.h and of libcamera\<close>

text \<open>The two structs of \<^verbatim>\<open>camera_linux.h\<close>; \<^verbatim>\<open>unsigned int\<close> is 32 bits wide.\<close>

record buffer =
  fd :: int
  offset :: "32 word"
  length_buf :: "32 word"

record format =
  width :: "32 word"
  height :: "32 word"
  stride :: "32 word"

text \<open>libcamera's \<^verbatim>\<open>FrameBuffer::Plane\<close>, \<^verbatim>\<open>Size\<close>, \<^verbatim>\<open>Rectangle\<close> and \<^verbatim>\<open>StreamConfiguration\<close>.\<close>

record plane =
  plane_fd :: int
  plane_offset :: "32 word"
  plane_length :: "32 word"

type_synonym frame_buffer = "plane list"

record size2d =
  size_width :: "32 word"
  size_height :: "32 word"

record rectangle =
  rect_x :: int
  rect_y :: int
  rect_width :: "32 word"
  rect_height :: "32 word"

datatype pixel_format = YUV420 | SBGGR8 | Other_format nat

datatype color_space = Raw | Other_color_space nat

type_synonym stream = nat

record stream_configuration =
  pixelFormat :: pixel_format
  size_cfg :: size2d
  stride_cfg :: "32 word"
  bufferCount :: "32 word"
  colorSpace :: "color_space option"
  stream_cfg :: stream

type_synonym camera_configuration = "stream_configuration list"

datatype request_status = RequestPending | RequestComplete | RequestCancelled

record request =
  cookie :: "64 word"
  status :: request_status
  bound_buffers :: "(stream \<times> frame_buffer) list"

subsection \<open>The external camera stack\<close>

text \<open>
  What the calls into libcamera answer. A \<open>camera_dev\<close> is one \<^verbatim>\<open>Camera\<close> together with
  the objects made from it (its configuration, allocator and requests); a
  \<open>camera_manager\<close> is the \<^verbatim>\<open>CameraManager\<close> that \<^verbatim>\<open>open_camera\<close> constructs.
\<close>

record camera_dev =
  cam_id :: string
  acquire_ret :: int
  generated :: "camera_configuration option"
  pixel_array_size :: "size2d option"
  validate :: "camera_configuration \<Rightarrow> camera_configuration"
  configure_ret :: "camera_configuration \<Rightarrow> int"
  allocate_ret :: "stream \<Rightarrow> int"
  allocated :: "stream \<Rightarrow> frame_buffer list"
  create_request_ok :: "64 word \<Rightarrow> bool"
  add_buffer_ret :: "64 word \<Rightarrow> int"
  start_ret :: "rectangle \<Rightarrow> int"
  queue_ret :: "request \<Rightarrow> int"

record camera_manager =
  manager_start_ret :: int
  cameras :: "camera_dev list"

record frame_buffer_allocator =
  alloc_stream :: stream
  alloc_buffers :: "frame_buffer list"

text \<open>
  One entry per call into the stack (and per invocation of the Go callback), with the
  arguments and the answer where the code looks at it.
\<close>

datatype event =
    Manager_start int
  | Manager_stop
  | Camera_acquire int
  | Camera_release
  | Generate_configuration
  | Validate
  | Camera_configure int
  | Allocate stream int
  | Free stream
  | Create_request "64 word" bool
  | Add_buffer "64 word" int
  | Connect_request_completed
  | Camera_start rectangle int
  | Camera_stop
  | Request_reuse "64 word"
  | Queue_request "64 word" int
  | Requests_clear nat
  | Request_callback "64 word" "64 word"

subsection \<open>The file-level state\<close>

text \<open>The six static variables; a null smart pointer is \<open>None\<close>.\<close>

record session =
  cam_manager :: "camera_manager option"
  allocator :: "frame_buffer_allocator option"
  config :: "camera_configuration option"
  camera :: "camera_dev option"
  requests :: "request list"
  callback_handle :: "64 word"

definition closed_session :: session where
  "closed_session =
     \<lparr>cam_manager = None, allocator = None, config = None, camera = None,
      requests = [], callback_handle = 0\<rparr>"

definition EINVAL :: int where
  "EINVAL = 22"

text \<open>\<^verbatim>\<open>FrameBufferAllocator::buffers(stream)\<close>: empty for a stream it holds nothing for.\<close>

definition buffers :: "frame_buffer_allocator \<Rightarrow> stream \<Rightarrow> frame_buffer list" where
  "buffers a st = (if st = alloc_stream a then alloc_buffers a else [])"

subsection \<open>requestComplete\<close>

definition requestComplete :: "session \<Rightarrow> request \<Rightarrow> event list" where
  "requestComplete s req =
     (if status req = RequestCancelled then []
      else [Request_callback (callback_handle s) (cookie req)])"

subsection \<open>buffer_at\<close>

text \<open>
  The range-for over \<^verbatim>\<open>buf->planes()\<close>: \<open>None\<close> is the call of \<^verbatim>\<open>abort()\<close>. The
  additions are those of \<^verbatim>\<open>unsigned int\<close>.
\<close>

fun check_planes :: "buffer \<Rightarrow> plane list \<Rightarrow> buffer option" where
  "check_planes b [] = Some b"
| "check_planes b (p # ps) =
     (if plane_fd p \<noteq> fd b \<or> plane_offset p \<noteq> offset b + length_buf b then None
      else check_planes (b\<lparr>length_buf := length_buf b + plane_length p\<rparr>) ps)"

text \<open>
  The descriptor of one frame buffer (the body of \<^verbatim>\<open>buffer_at\<close> from the read of
  \<^verbatim>\<open>planes()[0]\<close> on). The length starts at the first plane's offset, as in the source.
\<close>

definition describe_buffer :: "frame_buffer \<Rightarrow> buffer outcome" where
  "describe_buffer buf =
     (case buf of
        [] \<Rightarrow> Undefined Index_out_of_bounds
      | plane0 # _ \<Rightarrow>
          (case check_planes
                  \<lparr>fd = plane_fd plane0, offset = plane_offset plane0,
                   length_buf = plane_offset plane0\<rparr> buf of
             None \<Rightarrow> Aborted
           | Some b \<Rightarrow> Returned b))"

definition buffer_at :: "session \<Rightarrow> nat \<Rightarrow> buffer outcome" where
  "buffer_at s idx =
     (case config s of
        None \<Rightarrow> Undefined Null_dereference
      | Some conf \<Rightarrow>
          (case conf of
             [] \<Rightarrow> Undefined Index_out_of_bounds
           | streamConfig # _ \<Rightarrow>
               (case allocator s of
                  None \<Rightarrow> Undefined Null_dereference
                | Some a \<Rightarrow>
                    if idx < length (buffers a (stream_cfg streamConfig))
                    then describe_buffer (buffers a (stream_cfg streamConfig) ! idx)
                    else Undefined Index_out_of_bounds)))"

subsection \<open>num_buffers, queue_request, frame_format\<close>

definition num_buffers :: "session \<Rightarrow> nat" where
  "num_buffers s = length (requests s)"

text \<open>
  \<^verbatim>\<open>requests.at(buf_idx)\<close> throws \<^verbatim>\<open>std::out_of_range\<close>; \<^verbatim>\<open>reuse(ReuseBuffers)\<close> puts the
  request back to pending and keeps its buffers.
\<close>

definition reuse :: "request \<Rightarrow> request" where
  "reuse req = req\<lparr>status := RequestPending\<rparr>"

definition queue_request :: "session \<Rightarrow> nat \<Rightarrow> int outcome \<times> session \<times> event list" where
  "queue_request s buf_idx =
     (if length (requests s) \<le> buf_idx then (Threw Out_of_range, s, [])
      else
        let req = reuse (requests s ! buf_idx);
            s' = s\<lparr>requests := (requests s)[buf_idx := req]\<rparr>
        in (case camera s of
              None \<Rightarrow> (Undefined Null_dereference, s', [Request_reuse (cookie req)])
            | Some c \<Rightarrow>
                (Returned (queue_ret c req), s',
                 [Request_reuse (cookie req), Queue_request (cookie req) (queue_ret c req)])))"

definition frame_format :: "session \<Rightarrow> format outcome" where
  "frame_format s =
     (case config s of
        None \<Rightarrow> Undefined Null_dereference
      | Some cfg \<Rightarrow>
          (case cfg of
             [] \<Rightarrow> Undefined Index_out_of_bounds
           | conf # _ \<Rightarrow>
               Returned \<lparr>width = size_width (size_cfg conf),
                         height = size_height (size_cfg conf),
                         stride = stride_cfg conf\<rparr>))"

subsection \<open>open_camera\<close>

text \<open>\<^verbatim>\<open>CameraManager::get(id)\<close>: the first camera of that id, or null.\<close>

definition get_camera :: "camera_manager \<Rightarrow> string \<Rightarrow> camera_dev option" where
  "get_camera cm cid = find (\<lambda>c. cam_id c = cid) (cameras cm)"

text \<open>
  The assignments to \<^verbatim>\<open>conf->at(0)\<close> and \<^verbatim>\<open>conf->at(1)\<close> (lines 96 to 108), for a
  configuration of at least two entries.
\<close>

definition requested_configuration ::
  "camera_configuration \<Rightarrow> 32 word \<Rightarrow> 32 word \<Rightarrow> size2d \<Rightarrow> camera_configuration" where
  "requested_configuration conf w h sensor_size =
     (let streamConfig = (conf ! 0)
            \<lparr>size_cfg := \<lparr>size_width = w, size_height = h\<rparr>,
             pixelFormat := YUV420,
             bufferCount := 1\<rparr>;
          rawConfig = (conf ! 1)
            \<lparr>size_cfg := sensor_size,
             pixelFormat := SBGGR8,
             colorSpace := Some Raw,
             bufferCount := 0\<rparr>
      in conf[0 := streamConfig, 1 := rawConfig])"

text \<open>
  The loop that builds one request per buffer, from index \<open>i\<close> on: \<open>Inl\<close> is the early
  return (after \<^verbatim>\<open>createRequest\<close> gave null or \<^verbatim>\<open>addBuffer\<close> a negative status), \<open>Inr\<close> the
  requests pushed. Both carry the calls made. The counter is \<^verbatim>\<open>unsigned int\<close> in the source;
  the model is for buffer lists shorter than \<open>2 ^ 32\<close>, which the counter can index.
\<close>

fun build_requests ::
  "camera_dev \<Rightarrow> stream \<Rightarrow> frame_buffer list \<Rightarrow> nat \<Rightarrow> event list + (request list \<times> event list)" where
  "build_requests c st [] i = Inr ([], [])"
| "build_requests c st (buffer # bufs) i =
     (if \<not> create_request_ok c (of_nat i) then Inl [Create_request (of_nat i) False]
      else
        let ret = add_buffer_ret c (of_nat i);
            calls = [Create_request (of_nat i) True, Add_buffer (of_nat i) ret]
        in if ret < 0 then Inl calls
           else
             (case build_requests c st bufs (Suc i) of
                Inl tr \<Rightarrow> Inl (calls @ tr)
              | Inr (reqs, tr) \<Rightarrow>
                  Inr (\<lparr>cookie = of_nat i, status = RequestPending,
                        bound_buffers = [(st, buffer)]\<rparr> # reqs, calls @ tr)))"

definition open_camera ::
  "camera_manager \<Rightarrow> 32 word \<Rightarrow> 32 word \<Rightarrow> 64 word \<Rightarrow> session \<Rightarrow> int outcome \<times> session \<times> event list" where
  "open_camera cm w h handle s =
     (let ret = manager_start_ret cm; t1 = [Manager_start ret] in
      if ret \<noteq> 0 then (Returned ret, s, t1)
      else if cameras cm = [] then (Returned (- EINVAL), s, t1 @ [Manager_stop])
      else
        (case get_camera cm (cam_id (cameras cm ! 0)) of
           None \<Rightarrow> (Undefined Null_dereference, s, t1)
         | Some c \<Rightarrow>
             let ret = acquire_ret c; t2 = t1 @ [Camera_acquire ret] in
             if ret \<noteq> 0 then (Returned ret, s, t2 @ [Manager_stop])
             else
               (case generated c of
                  None \<Rightarrow>
                    (Returned (- EINVAL), s,
                     t2 @ [Generate_configuration, Camera_release, Manager_stop])
                | Some conf \<Rightarrow>
                    let t3 = t2 @ [Generate_configuration] in
                    if length conf < 2 then (Undefined Index_out_of_bounds, s, t3)
                    else
                      (case pixel_array_size c of
                         None \<Rightarrow> (Threw Bad_optional_access, s, t3)
                       | Some sensor_size \<Rightarrow>
                           let conf1 = validate c (requested_configuration conf w h sensor_size);
                               t4 = t3 @ [Validate]
                           in
                           (case conf1 of
                              [] \<Rightarrow> (Undefined Index_out_of_bounds, s, t4)
                            | visible # _ \<Rightarrow>
                                if pixelFormat visible \<noteq> YUV420
                                then (Returned (- EINVAL), s, t4 @ [Camera_release, Manager_stop])
                                else
                                  let conf2 = validate c conf1;
                                      ret = configure_ret c conf2;
                                      t5 = t4 @ [Validate, Camera_configure ret]
                                  in
                                  if ret \<noteq> 0
                                  then (Returned ret, s, t5 @ [Camera_release, Manager_stop])
                                  else
                                    (case conf2 of
                                       [] \<Rightarrow> (Undefined Index_out_of_bounds, s, t5)
                                     | streamConfig # _ \<Rightarrow>
                                         let st = stream_cfg streamConfig;
                                             ret = allocate_ret c st;
                                             t6 = t5 @ [Allocate st ret]
                                         in
                                         if ret < 0
                                         then (Returned (- EINVAL), s,
                                               t6 @ [Camera_release, Manager_stop])
                                         else
                                           (case build_requests c st (allocated c st) 0 of
                                              Inl tr \<Rightarrow>
                                                (Returned (- EINVAL), s,
                                                 t6 @ tr @ [Free st, Camera_release, Manager_stop])
                                            | Inr (reqs, tr) \<Rightarrow>
                                                (Returned 0,
                                                 s\<lparr>callback_handle := handle,
                                                   cam_manager := Some cm,
                                                   camera := Some c,
                                                   allocator :=
                                                     Some \<lparr>alloc_stream = st,
                                                           alloc_buffers = allocated c st\<rparr>,
                                                   config := Some conf2,
                                                   requests := reqs\<rparr>,
                                                 t6 @ tr @ [Connect_request_completed]))))))))"

subsection \<open>start_camera\<close>

text \<open>The range-for over \<^verbatim>\<open>requests\<close>: the status returned and the calls made.\<close>

fun queue_all :: "camera_dev \<Rightarrow> request list \<Rightarrow> int \<times> event list" where
  "queue_all c [] = (0, [])"
| "queue_all c (req # reqs) =
     (let ret = queue_ret c req in
      if ret \<noteq> 0 then (ret, [Queue_request (cookie req) ret])
      else
        (case queue_all c reqs of
           (ret', tr) \<Rightarrow> (ret', Queue_request (cookie req) ret # tr)))"

text \<open>
  The crop is computed in \<^verbatim>\<open>unsigned int\<close> and stored into the \<^verbatim>\<open>int\<close> fields of
  \<^verbatim>\<open>Rectangle\<close>; half of a 32-bit value always fits.
\<close>

definition crop_rectangle :: "size2d \<Rightarrow> 32 word \<Rightarrow> 32 word \<Rightarrow> rectangle" where
  "crop_rectangle max_size w h =
     \<lparr>rect_x = uint ((size_width max_size - w) div 2),
      rect_y = uint ((size_height max_size - h) div 2),
      rect_width = w,
      rect_height = h\<rparr>"

definition start_camera ::
  "session \<Rightarrow> 32 word \<Rightarrow> 32 word \<Rightarrow> int outcome \<times> session \<times> event list" where
  "start_camera s w h =
     (case camera s of
        None \<Rightarrow> (Undefined Null_dereference, s, [])
      | Some c \<Rightarrow>
          let sz = \<lparr>size_width = w, size_height = h\<rparr>;
              max_size = (case pixel_array_size c of None \<Rightarrow> sz | Some m \<Rightarrow> m);
              crop = crop_rectangle max_size w h;
              ret = start_ret c crop
          in if ret \<noteq> 0 then (Returned ret, s, [Camera_start crop ret])
             else
               (case queue_all c (requests s) of
                  (ret', tr) \<Rightarrow> (Returned ret', s, Camera_start crop ret # tr)))"

subsection \<open>close_camera\<close>

definition close_camera :: "session \<Rightarrow> unit outcome \<times> session \<times> event list" where
  "close_camera s =
     (case camera s of
        None \<Rightarrow> (Undefined Null_dereference, s, [])
      | Some c \<Rightarrow>
          let t1 = [Camera_stop, Requests_clear (length (requests s))];
              s1 = s\<lparr>requests := []\<rparr>
          in
          (case config s1 of
             None \<Rightarrow> (Undefined Null_dereference, s1, t1)
           | Some conf \<Rightarrow>
               (case conf of
                  [] \<Rightarrow> (Undefined Index_out_of_bounds, s1, t1)
                | streamConfig # _ \<Rightarrow>
                    (case allocator s1 of
                       None \<Rightarrow> (Undefined Null_dereference, s1, t1)
                     | Some a \<Rightarrow>
                         let t2 = t1 @ [Free (stream_cfg streamConfig), Camera_release];
                             s2 = s1\<lparr>allocator := None, camera := None\<rparr>
                         in
                         (case cam_manager s2 of
                            None \<Rightarrow> (Undefined Null_dereference, s2, t2)
                          | Some cm \<Rightarrow>
                              (Returned (), s2\<lparr>cam_manager := None\<rparr>,
                               t2 @ [Manager_stop]))))))"

section \<open>Notions used by the properties\<close>

subsection \<open>Contiguous plane layouts\<close>

text \<open>
  The planes of a buffer all lie in descriptor \<open>f\<close> and follow each other without a gap,
  the first of them at \<open>off\<close>. Offsets and lengths are 32-bit, as in \<^verbatim>\<open>buffer\<close>.
\<close>

fun back_to_back :: "int \<Rightarrow> 32 word \<Rightarrow> plane list \<Rightarrow> bool" where
  "back_to_back f off [] = True"
| "back_to_back f off (p # ps) =
     (plane_fd p = f \<and> plane_offset p = off \<and> back_to_back f (off + plane_length p) ps)"

definition contiguous :: "frame_buffer \<Rightarrow> bool" where
  "contiguous buf =
     (case buf of [] \<Rightarrow> False | p # _ \<Rightarrow> back_to_back (plane_fd p) (plane_offset p) buf)"

definition total_length :: "frame_buffer \<Rightarrow> 32 word" where
  "total_length buf = sum_list (map plane_length buf)"

subsection \<open>Resources taken and given back along a trace\<close>

datatype resource = Manager | Device | Frame_buffers

text \<open>
  A manager start or a device acquisition took effect when it answered 0, an allocation when
  its answer was not negative: these are the tests \<^verbatim>\<open>open_camera\<close> applies.
\<close>

fun acquires :: "event \<Rightarrow> resource list" where
  "acquires (Manager_start ret) = (if ret = 0 then [Manager] else [])"
| "acquires (Camera_acquire ret) = (if ret = 0 then [Device] else [])"
| "acquires (Allocate st ret) = (if 0 \<le> ret then [Frame_buffers] else [])"
| "acquires _ = []"

fun releases :: "event \<Rightarrow> resource list" where
  "releases Manager_stop = [Manager]"
| "releases Camera_release = [Device]"
| "releases (Free st) = [Frame_buffers]"
| "releases _ = []"




subsection \<open>The stage at which open_camera fails\<close>

datatype stage =
    Manager_start_fails
  | Device_list_empty
  | Acquire_fails
  | Configuration_none
  | Format_rejected
  | Configure_fails
  | Allocation_fails
  | Request_creation_fails
  | Buffer_binding_fails


text \<open>The first request, from index \<open>i\<close> on, that the stack fails to create or to bind.\<close>

fun pool_failure :: "camera_dev \<Rightarrow> frame_buffer list \<Rightarrow> nat \<Rightarrow> stage option" where
  "pool_failure c [] i = None"
| "pool_failure c (buffer # bufs) i =
     (if \<not> create_request_ok c (of_nat i) then Some Request_creation_fails
      else if add_buffer_ret c (of_nat i) < 0 then Some Buffer_binding_fails
      else pool_failure c bufs (Suc i))"

text \<open>
  The first stage at which the stack behind \<open>cm\<close> fails an \<^verbatim>\<open>open_camera\<close> of the given
  size; \<open>None\<close> when no stage fails, and also when the call leaves without a status (the
  device has no pixel-array size, or a configuration has too few entries).
\<close>

definition failing_stage :: "camera_manager \<Rightarrow> 32 word \<Rightarrow> 32 word \<Rightarrow> stage option" where
  "failing_stage cm w h =
     (if manager_start_ret cm \<noteq> 0 then Some Manager_start_fails
      else
        (case cameras cm of
           [] \<Rightarrow> Some Device_list_empty
         | c # _ \<Rightarrow>
             if acquire_ret c \<noteq> 0 then Some Acquire_fails
             else
               (case generated c of
                  None \<Rightarrow> Some Configuration_none
                | Some conf \<Rightarrow>
                    if length conf < 2 then None
                    else
                      (case pixel_array_size c of
                         None \<Rightarrow> None
                       | Some sensor_size \<Rightarrow>
                           (case validate c (requested_configuration conf w h sensor_size) of
                              [] \<Rightarrow> None
                            | visible # rest \<Rightarrow>
                                if pixelFormat visible \<noteq> YUV420 then Some Format_rejected
                                else if configure_ret c (validate c (visible # rest)) \<noteq> 0
                                then Some Configure_fails
                                else
                                  (case validate c (visible # rest) of
                                     [] \<Rightarrow> None
                                   | streamConfig # _ \<Rightarrow>
                                       if allocate_ret c (stream_cfg streamConfig) < 0
                                       then Some Allocation_fails
                                       else pool_failure c
                                              (allocated c (stream_cfg streamConfig)) 0))))))"

subsection \<open>Sequences of calls on a session\<close>

datatype call = Start "32 word" "32 word" | Queue nat

fun run :: "call list \<Rightarrow> session \<Rightarrow> session" where
  "run [] s = s"
| "run (Start w h # calls) s = run calls (fst (snd (start_camera s w h)))"
| "run (Queue i # calls) s = run calls (fst (snd (queue_request s i)))"

subsection \<open>Traces without resource events\<close>

definition neutral :: "event list \<Rightarrow> bool" where
  "neutral tr = (\<forall>e\<in>set tr. acquires e = [] \<and> releases e = [])"

section \<open>An example stack\<close>

text \<open>
  A device that answers every call with success: it offers two stream configurations, has a
  pixel array of 3280 by 2464, sets the stride of a stream to its width on validation, and
  allocates two buffers of three planes each in descriptor 5, the second buffer right behind
  the first. Variants of it fail one call.
\<close>

definition example_stream_configuration :: stream_configuration where
  "example_stream_configuration =
     \<lparr>pixelFormat = Other_format 0, size_cfg = \<lparr>size_width = 0, size_height = 0\<rparr>,
      stride_cfg = 0, bufferCount = 4, colorSpace = None, stream_cfg = 0\<rparr>"

definition example_validate :: "camera_configuration \<Rightarrow> camera_configuration" where
  "example_validate conf = map (\<lambda>sc. sc\<lparr>stride_cfg := size_width (size_cfg sc)\<rparr>) conf"

definition example_planes :: "32 word \<Rightarrow> frame_buffer" where
  "example_planes base =
     [\<lparr>plane_fd = 5, plane_offset = base, plane_length = 307200\<rparr>,
      \<lparr>plane_fd = 5, plane_offset = base + 307200, plane_length = 76800\<rparr>,
      \<lparr>plane_fd = 5, plane_offset = base + 384000, plane_length = 76800\<rparr>]"

definition example_camera :: camera_dev where
  "example_camera =
     \<lparr>cam_id = ''cam0'', acquire_ret = 0,
      generated = Some [example_stream_configuration, example_stream_configuration],
      pixel_array_size = Some \<lparr>size_width = 3280, size_height = 2464\<rparr>,
      validate = example_validate,
      configure_ret = (\<lambda>_. 0), allocate_ret = (\<lambda>_. 2),
      allocated = (\<lambda>_. [example_planes 0, example_planes 460800]),
      create_request_ok = (\<lambda>_. True), add_buffer_ret = (\<lambda>_. 0),
      start_ret = (\<lambda>_. 0), queue_ret = (\<lambda>_. 0)\<rparr>"

definition example_manager :: "camera_dev \<Rightarrow> camera_manager" where
  "example_manager c = \<lparr>manager_start_ret = 0, cameras = [c]\<rparr>"

text \<open>The session that \<^verbatim>\<open>open_camera(640, 480, 7)\<close> leaves on the stack of device \<open>c\<close>.\<close>

definition opened :: "camera_dev \<Rightarrow> session" where
  "opened c = fst (snd (open_camera (example_manager c) 640 480 7 closed_session))"


definition start_fails_camera :: camera_dev where
  "start_fails_camera = example_camera\<lparr>start_ret := (\<lambda>_. - 5)\<rparr>"

definition queue_fails_camera :: camera_dev where
  "queue_fails_camera =
     example_camera\<lparr>queue_ret := (\<lambda>req. if cookie req = 0 then - 16 else 0)\<rparr>"

definition no_size_camera :: camera_dev where
  "no_size_camera = example_camera\<lparr>pixel_array_size := None\<rparr>"



section \<open>Auxiliary facts\<close>

subsection \<open>What buffer_at returns\<close>

text \<open>
  The loop accepts the planes exactly when they lie back to back from the offset it starts
  with, which is twice the first plane's offset: the first plane passes only at offset 0.
\<close>

lemma word_double_self: "(x::32 word) = x + x \<longleftrightarrow> x = 0"
  by auto

lemma check_planes_eq:
  "check_planes b ps =
     (if back_to_back (fd b) (offset b + length_buf b) ps
      then Some (b\<lparr>length_buf := length_buf b + sum_list (map plane_length ps)\<rparr>) else None)"
  by (induction ps arbitrary: b) (auto simp: add.assoc)

lemma describe_buffer_Returned:
  "describe_buffer buf = Returned b \<longleftrightarrow>
     contiguous buf \<and> plane_offset (hd buf) = 0 \<and>
     b = \<lparr>fd = plane_fd (hd buf), offset = 0, length_buf = total_length buf\<rparr>"
  by (cases buf) (auto simp: describe_buffer_def check_planes_eq contiguous_def total_length_def)

lemma describe_buffer_Aborted:
  "describe_buffer buf = Aborted \<longleftrightarrow> buf \<noteq> [] \<and> \<not> (contiguous buf \<and> plane_offset (hd buf) = 0)"
  by (cases buf) (auto simp: describe_buffer_def check_planes_eq contiguous_def total_length_def)

subsection \<open>Traces of open_camera\<close>

lemma get_camera_first:
  "cameras cm = c # cs \<Longrightarrow> get_camera cm (cam_id (cameras cm ! 0)) = Some c"
  by (simp add: get_camera_def)











lemma build_requests_neutral_Inr:
  "build_requests c st bufs i = Inr (reqs, tr) \<Longrightarrow> neutral tr"
  by (induction bufs arbitrary: i tr reqs)
     (auto simp: neutral_def Let_def split: if_splits sum.splits)

lemma build_requests_length:
  "build_requests c st bufs i = Inr (reqs, tr) \<Longrightarrow> length reqs = length bufs"
  by (induction bufs arbitrary: i tr reqs)
     (auto simp: Let_def split: if_splits sum.splits)


lemma pool_failure_iff:
  "pool_failure c bufs i = None \<longleftrightarrow> (\<exists>reqs tr. build_requests c st bufs i = Inr (reqs, tr))"
proof (induction bufs arbitrary: i)
  case Nil
  show ?case by simp
next
  case (Cons buffer bufs)
  show ?case
    using Cons.IH [of "Suc i"]
    by (cases "build_requests c st bufs (Suc i)") (auto simp: Let_def)
qed




text \<open>Conversely, a nonzero status only ever comes from one of the nine stages.\<close>

lemma build_requests_Inl_stage:
  assumes "build_requests c st bufs i = Inl tr"
  shows "\<exists>stg. pool_failure c bufs i = Some stg"
proof (cases "pool_failure c bufs i")
  case None
  then obtain reqs tr' where "build_requests c st bufs i = Inr (reqs, tr')"
    using pool_failure_iff [of c bufs i st] by blast
  with assms show ?thesis by simp
next
  case (Some stg)
  then show ?thesis by blast
qed

lemma open_camera_status_has_stage:
  assumes "open_camera cm w h handle s = (Returned r, s', tr)" and "r \<noteq> 0"
  shows "\<exists>stg. failing_stage cm w h = Some stg"
proof (cases "cameras cm")
  case Nil
  then show ?thesis
    by (simp add: failing_stage_def)
next
  case (Cons c cs)
  show ?thesis
    using assms Cons get_camera_first [OF Cons]
    by (auto simp: open_camera_def failing_stage_def Let_def
        split: if_splits option.splits list.splits sum.splits
        dest: build_requests_Inl_stage)
qed

subsection \<open>The queue loop of start_camera\<close>

lemma queue_all_ok:
  "\<forall>req\<in>set reqs. queue_ret c req = 0 \<Longrightarrow>
     queue_all c reqs = (0, map (\<lambda>r. Queue_request (cookie r) (queue_ret c r)) reqs)"
  by (induction reqs) (simp_all add: Let_def)

lemma queue_all_first_failure:
  "k < length reqs \<Longrightarrow> queue_ret c (reqs ! k) \<noteq> 0 \<Longrightarrow> \<forall>j<k. queue_ret c (reqs ! j) = 0 \<Longrightarrow>
     queue_all c reqs =
       (queue_ret c (reqs ! k), map (\<lambda>r. Queue_request (cookie r) (queue_ret c r)) (take (Suc k) reqs))"
proof (induction reqs arbitrary: k)
  case Nil
  then show ?case by simp
next
  case (Cons req reqs)
  show ?case
  proof (cases k)
    case 0
    with Cons.prems show ?thesis by (simp add: Let_def)
  next
    case (Suc k')
    have first_ok: "queue_ret c req = 0"
      using Cons.prems(3) Suc by auto
    have later: "\<forall>j<k'. queue_ret c (reqs ! j) = 0"
      using Cons.prems(3) Suc by auto
    have "queue_all c reqs =
       (queue_ret c (reqs ! k'), map (\<lambda>r. Queue_request (cookie r) (queue_ret c r)) (take (Suc k') reqs))"
      using Cons.IH [of k'] Cons.prems(1,2) Suc later by simp
    with first_ok Suc show ?thesis by (simp add: Let_def)
  qed
qed

subsection \<open>The configuration that open_camera asks for\<close>

lemma requested_configuration_visible:
  assumes "2 \<le> length conf"
  shows "\<exists>rest. requested_configuration conf w h sensor_size =
           (conf ! 0)\<lparr>size_cfg := \<lparr>size_width = w, size_height = h\<rparr>,
                      pixelFormat := YUV420, bufferCount := 1\<rparr> # rest"
proof -
  from assms obtain a b cs where "conf = a # b # cs"
    by (cases conf; cases "tl conf") auto
  then show ?thesis
    by (simp add: requested_configuration_def)
qed

lemma requested_configuration_size:
  "2 \<le> length conf \<Longrightarrow>
     size_cfg (hd (requested_configuration conf w h sensor_size)) =
       \<lparr>size_width = w, size_height = h\<rparr>"
  using requested_configuration_visible [of conf w h sensor_size] by auto

subsection \<open>The session after a successful open_camera\<close>

lemma open_camera_success:
  assumes "open_camera cm w h handle s0 = (Returned 0, s, tr)"
  shows "\<exists>c cs conf sensor_size streamConfig rest reqs.
           manager_start_ret cm = 0 \<and> cameras cm = c # cs \<and> acquire_ret c = 0 \<and>
           generated c = Some conf \<and> 2 \<le> length conf \<and>
           pixel_array_size c = Some sensor_size \<and>
           validate c (validate c (requested_configuration conf w h sensor_size)) = streamConfig # rest \<and>
           build_requests c (stream_cfg streamConfig) (allocated c (stream_cfg streamConfig)) 0 \<noteq> Inl [] \<and>
           length reqs = length (allocated c (stream_cfg streamConfig)) \<and>
           s = s0\<lparr>callback_handle := handle, cam_manager := Some cm, camera := Some c,
                  allocator := Some \<lparr>alloc_stream = stream_cfg streamConfig,
                                     alloc_buffers = allocated c (stream_cfg streamConfig)\<rparr>,
                  config := Some (streamConfig # rest), requests := reqs\<rparr>"
proof -
  from assms have start_ok: "manager_start_ret cm = 0"
    by (auto simp: open_camera_def Let_def EINVAL_def split: if_splits)
  from assms start_ok obtain c cs where cams: "cameras cm = c # cs"
    by (cases "cameras cm") (auto simp: open_camera_def Let_def EINVAL_def)
  note get = get_camera_first [OF cams]
  from assms start_ok cams get have acq_ok: "acquire_ret c = 0"
    by (auto simp: open_camera_def Let_def EINVAL_def split: if_splits)
  from assms start_ok cams get acq_ok obtain conf where gen: "generated c = Some conf"
    by (cases "generated c") (auto simp: open_camera_def Let_def EINVAL_def)
  from assms start_ok cams get acq_ok gen have len: "2 \<le> length conf"
    by (auto simp: open_camera_def Let_def EINVAL_def split: if_splits)
  from assms start_ok cams get acq_ok gen len obtain sensor_size where
    pas: "pixel_array_size c = Some sensor_size"
    by (cases "pixel_array_size c") (auto simp: open_camera_def Let_def EINVAL_def)
  from assms start_ok cams get acq_ok gen len pas obtain visible rest1 where
    v1: "validate c (requested_configuration conf w h sensor_size) = visible # rest1"
    by (cases "validate c (requested_configuration conf w h sensor_size)")
       (auto simp: open_camera_def Let_def EINVAL_def)
  from assms start_ok cams get acq_ok gen len pas v1 have
    rest: "pixelFormat visible = YUV420 \<and> configure_ret c (validate c (visible # rest1)) = 0"
    by (auto simp: open_camera_def Let_def EINVAL_def split: if_splits)
  from assms start_ok cams get acq_ok gen len pas v1 rest obtain streamConfig rest2 where
    v2: "validate c (visible # rest1) = streamConfig # rest2"
    by (cases "validate c (visible # rest1)") (auto simp: open_camera_def Let_def EINVAL_def)
  from assms start_ok cams get acq_ok gen len pas v1 rest v2 have
    alloc_ok: "\<not> allocate_ret c (stream_cfg streamConfig) < 0"
    by (auto simp: open_camera_def Let_def EINVAL_def split: if_splits)
  from assms start_ok cams get acq_ok gen len pas v1 rest v2 alloc_ok obtain reqs tr' where
    br: "build_requests c (stream_cfg streamConfig) (allocated c (stream_cfg streamConfig)) 0 = Inr (reqs, tr')"
    and s: "s = s0\<lparr>callback_handle := handle, cam_manager := Some cm, camera := Some c,
                  allocator := Some \<lparr>alloc_stream = stream_cfg streamConfig,
                                     alloc_buffers = allocated c (stream_cfg streamConfig)\<rparr>,
                  config := Some (streamConfig # rest2), requests := reqs\<rparr>"
    by (cases "build_requests c (stream_cfg streamConfig) (allocated c (stream_cfg streamConfig)) 0")
       (auto simp: open_camera_def Let_def EINVAL_def)
  from br have "length reqs = length (allocated c (stream_cfg streamConfig))"
    by (rule build_requests_length)
  with start_ok cams acq_ok gen len pas v1 v2 br s show ?thesis
    by auto
qed

subsection \<open>The configuration is never assigned after open_camera\<close>

lemma config_start: "config (fst (snd (start_camera s w h))) = config s"
  by (simp add: start_camera_def Let_def split: option.splits prod.splits)

lemma config_queue: "config (fst (snd (queue_request s i))) = config s"
  by (simp add: queue_request_def Let_def split: option.splits)

lemma config_run: "config (run calls s) = config s"
proof (induction calls arbitrary: s)
  case Nil
  show ?case by simp
next
  case (Cons call calls)
  show ?case
    by (cases call) (simp_all add: Cons.IH config_start config_queue)
qed

lemma frame_format_config: "config s' = config s \<Longrightarrow> frame_format s' = frame_format s"
  by (simp add: frame_format_def)

subsection \<open>The crop arithmetic\<close>

lemma half_difference:
  "(w::32 word) \<le> m \<Longrightarrow> uint ((m - w) div 2) = (uint m - uint w) div 2"
  by (simp add: uint_div uint_minus_simple_alt)

lemma half_difference_fits: "uint ((x::32 word) div 2) < 2 ^ 31"
proof -
  have "uint x < 2 ^ 32"
    using uint_bounded [of x] by simp
  then show ?thesis
    by (simp add: uint_div)
qed

subsection \<open>Evaluating the example stack\<close>

lemmas example_defs = example_stream_configuration_def example_validate_def
  example_planes_def example_camera_def example_manager_def closed_session_def
  requested_configuration_def

lemmas eval_defs = open_camera_def opened_def Let_def get_camera_def example_defs

section \<open>The claims\<close>

subsection \<open>C1: the descriptor of a contiguous buffer\<close>

text \<open>
  C1 says that \<^verbatim>\<open>buffer_at\<close> returns the descriptor (first plane's descriptor and offset,
  sum of the plane lengths) for every buffer whose planes share one file descriptor and lie
  back to back, and aborts for every other buffer. The code starts the accumulated length at
  the first plane's offset instead of 0, so its check of the first plane compares the offset
  with twice itself: by \<open>describe_buffer_Returned\<close> it returns only for contiguous buffers
  that begin at offset 0, and by \<open>describe_buffer_Aborted\<close> it aborts for all others. The
  second buffer of the example stack is contiguous and begins at offset 460800 of
  descriptor 5; \<^verbatim>\<open>buffer_at(1)\<close> aborts on it.
\<close>

theorem buffer_at_aborts_on_contiguous_buffer:
  "contiguous (example_planes 460800) \<and>
   alloc_buffers (the (allocator (opened example_camera))) ! 1 = example_planes 460800 \<and>
   buffer_at (opened example_camera) 1 = Aborted"
  by (simp add: eval_defs contiguous_def buffer_at_def buffers_def describe_buffer_def)

subsection \<open>C2: a failed open_camera unwinds\<close>



subsection \<open>C3: start_camera crops, starts and queues\<close>

text \<open>
  C3: on a session whose camera is set, \<^verbatim>\<open>start_camera(w, h)\<close> computes the crop
  \<open>((sensorWidth - w) / 2, (sensorHeight - h) / 2, w, h)\<close> from the pixel-array size, or
  from \<open>(w, h)\<close> itself when the device has none, which puts the crop at the origin. The
  subtraction is that of \<^verbatim>\<open>unsigned int\<close>; it is the subtraction of the integers whenever the
  requested size is within the sensor's. The crop is the control that the device is started
  with. When the start answers a nonzero status, that status is returned and nothing is
  queued. Otherwise the requests are queued once each, in pool order; when all are accepted
  the call returns 0, and when request \<open>k\<close> is the first to be refused, the call returns
  its status and the trace ends with that request: those behind it are not queued. The session
  is the same afterwards.
\<close>

theorem start_camera_crop_and_queue:
  "camera s = Some c \<Longrightarrow>
   (let max_size = (case pixel_array_size c of
                      None \<Rightarrow> \<lparr>size_width = w, size_height = h\<rparr>
                    | Some sensor \<Rightarrow> sensor);
        crop = \<lparr>rect_x = uint ((size_width max_size - w) div 2),
                rect_y = uint ((size_height max_size - h) div 2),
                rect_width = w, rect_height = h\<rparr>;
        queued = map (\<lambda>r. Queue_request (cookie r) (queue_ret c r))
    in (pixel_array_size c = None \<longrightarrow> rect_x crop = 0 \<and> rect_y crop = 0) \<and>
       (w \<le> size_width max_size \<longrightarrow>
          rect_x crop = (uint (size_width max_size) - uint w) div 2) \<and>
       (h \<le> size_height max_size \<longrightarrow>
          rect_y crop = (uint (size_height max_size) - uint h) div 2) \<and>
       (start_ret c crop \<noteq> 0 \<longrightarrow>
          start_camera s w h =
            (Returned (start_ret c crop), s, [Camera_start crop (start_ret c crop)])) \<and>
       (start_ret c crop = 0 \<and> (\<forall>req\<in>set (requests s). queue_ret c req = 0) \<longrightarrow>
          start_camera s w h = (Returned 0, s, Camera_start crop 0 # queued (requests s))) \<and>
       (start_ret c crop = 0 \<and> k < length (requests s) \<and>
            queue_ret c (requests s ! k) \<noteq> 0 \<and> (\<forall>j<k. queue_ret c (requests s ! j) = 0) \<longrightarrow>
          start_camera s w h =
            (Returned (queue_ret c (requests s ! k)), s,
             Camera_start crop 0 # queued (take (Suc k) (requests s)))))"
  by (auto simp: start_camera_def crop_rectangle_def Let_def queue_all_ok queue_all_first_failure
      half_difference split: option.splits)

theorem start_camera_crop_and_queue_witness:
  "start_camera (opened example_camera) 640 480 =
     (Returned 0, opened example_camera,
      [Camera_start \<lparr>rect_x = 1320, rect_y = 992, rect_width = 640, rect_height = 480\<rparr> 0,
       Queue_request 0 0, Queue_request 1 0]) \<and>
   start_camera (opened start_fails_camera) 640 480 =
     (Returned (- 5), opened start_fails_camera,
      [Camera_start \<lparr>rect_x = 1320, rect_y = 992, rect_width = 640, rect_height = 480\<rparr> (- 5)]) \<and>
   start_camera (opened queue_fails_camera) 640 480 =
     (Returned (- 16), opened queue_fails_camera,
      [Camera_start \<lparr>rect_x = 1320, rect_y = 992, rect_width = 640, rect_height = 480\<rparr> 0,
       Queue_request 0 (- 16)]) \<and>
   start_camera ((opened example_camera)\<lparr>camera := Some no_size_camera\<rparr>) 640 480 =
     (Returned 0, (opened example_camera)\<lparr>camera := Some no_size_camera\<rparr>,
      [Camera_start \<lparr>rect_x = 0, rect_y = 0, rect_width = 640, rect_height = 480\<rparr> 0,
       Queue_request 0 0, Queue_request 1 0])"
proof -
  have a: "camera (opened example_camera) = Some example_camera"
    by (simp add: eval_defs)
  have b: "camera (opened start_fails_camera) = Some start_fails_camera"
    by (simp add: eval_defs start_fails_camera_def)
  have c: "camera (opened queue_fails_camera) = Some queue_fails_camera"
    by (simp add: eval_defs queue_fails_camera_def)
  have d: "camera ((opened example_camera)\<lparr>camera := Some no_size_camera\<rparr>) = Some no_size_camera"
    by simp
  show ?thesis
    using start_camera_crop_and_queue [OF a, of 640 480 0]
      start_camera_crop_and_queue [OF b, of 640 480 0]
      start_camera_crop_and_queue [OF c, of 640 480 0]
      start_camera_crop_and_queue [OF d, of 640 480 0]
    by (simp add: eval_defs start_fails_camera_def queue_fails_camera_def no_size_camera_def)
qed

subsection \<open>C4: a pixel format changed by the first validation fails open_camera\<close>




subsection \<open>C5: close_camera tears down in order\<close>

text \<open>
  C5: on an open session (manager, camera, allocator and configuration set),
  \<^verbatim>\<open>close_camera\<close> makes exactly these calls, in this order and whatever the stack is:
  stop the device, clear the requests, free the buffers of stream 0, release the device, stop
  the manager. It returns with manager, camera and allocator null and no requests. No answer
  of the stack is looked at, so no step can be skipped.
\<close>

theorem close_camera_teardown:
  assumes "cam_manager s = Some cm" and "camera s = Some c" and "allocator s = Some a"
    and "config s = Some (streamConfig # rest)"
  shows "close_camera s =
           (Returned (),
            s\<lparr>requests := [], allocator := None, camera := None, cam_manager := None\<rparr>,
            [Camera_stop, Requests_clear (length (requests s)), Free (stream_cfg streamConfig),
             Camera_release, Manager_stop])"
  using assms by (simp add: close_camera_def Let_def)

theorem close_camera_teardown_witness:
  "fst (close_camera (opened example_camera)) = Returned () \<and>
   snd (snd (close_camera (opened example_camera))) =
     [Camera_stop, Requests_clear 2, Free 0, Camera_release, Manager_stop] \<and>
   cam_manager (fst (snd (close_camera (opened example_camera)))) = None \<and>
   camera (fst (snd (close_camera (opened example_camera)))) = None \<and>
   allocator (fst (snd (close_camera (opened example_camera)))) = None \<and>
   requests (fst (snd (close_camera (opened example_camera)))) = []"
proof -
  have 1: "cam_manager (opened example_camera) = Some (example_manager example_camera)"
    by (simp add: eval_defs)
  have 2: "camera (opened example_camera) = Some example_camera"
    by (simp add: eval_defs)
  have 3: "allocator (opened example_camera) =
             Some \<lparr>alloc_stream = 0, alloc_buffers = [example_planes 0, example_planes 460800]\<rparr>"
    by (simp add: eval_defs)
  have 4: "config (opened example_camera) =
             Some (\<lparr>pixelFormat = YUV420, size_cfg = \<lparr>size_width = 640, size_height = 480\<rparr>,
                    stride_cfg = 640, bufferCount = 1, colorSpace = None, stream_cfg = 0\<rparr> #
                   [\<lparr>pixelFormat = SBGGR8, size_cfg = \<lparr>size_width = 3280, size_height = 2464\<rparr>,
                     stride_cfg = 3280, bufferCount = 0, colorSpace = Some Raw, stream_cfg = 0\<rparr>])"
    by (simp add: eval_defs)
  have 5: "length (requests (opened example_camera)) = 2"
    by (simp add: eval_defs)
  show ?thesis
    using close_camera_teardown [OF 1 2 3 4] 5 by simp
qed

subsection \<open>C6: requestComplete filters cancelled requests\<close>

text \<open>
  C6: for a cancelled request \<^verbatim>\<open>requestComplete\<close> makes no call; for any other request it
  calls \<^verbatim>\<open>requestCallback\<close> once, with the stored handle and the request's cookie.
\<close>

theorem requestComplete_dispatch:
  "(status req = RequestCancelled \<longrightarrow> requestComplete s req = []) \<and>
   (status req \<noteq> RequestCancelled \<longrightarrow>
      requestComplete s req = [Request_callback (callback_handle s) (cookie req)])"
  by (simp add: requestComplete_def)

theorem requestComplete_dispatch_witness:
  "requestComplete (opened example_camera)
     \<lparr>cookie = 1, status = RequestCancelled, bound_buffers = []\<rparr> = [] \<and>
   requestComplete (opened example_camera)
     \<lparr>cookie = 1, status = RequestComplete, bound_buffers = []\<rparr> = [Request_callback 7 1]"
proof -
  have handle: "callback_handle (opened example_camera) = 7"
    by (simp add: eval_defs)
  show ?thesis
    using requestComplete_dispatch
            [of "\<lparr>cookie = 1, status = RequestCancelled, bound_buffers = []\<rparr>" "opened example_camera"]
          requestComplete_dispatch
            [of "\<lparr>cookie = 1, status = RequestComplete, bound_buffers = []\<rparr>" "opened example_camera"]
          handle
    by simp
qed

subsection \<open>C7: queue_request checks its index\<close>

text \<open>
  C7: for an index that is not below \<^verbatim>\<open>num_buffers()\<close>, \<^verbatim>\<open>queue_request\<close> leaves with
  \<^verbatim>\<open>std::out_of_range\<close>, having changed nothing and called nothing. For an index below it,
  on a session with a camera, the request is reset to pending by \<^verbatim>\<open>reuse\<close>, then submitted
  once, and the status of that submission is returned.
\<close>

theorem queue_request_checked:
  "(num_buffers s \<le> i \<longrightarrow> queue_request s i = (Threw Out_of_range, s, [])) \<and>
   (i < num_buffers s \<and> camera s = Some c \<longrightarrow>
      (let req = (requests s ! i)\<lparr>status := RequestPending\<rparr> in
         queue_request s i =
           (Returned (queue_ret c req), s\<lparr>requests := (requests s)[i := req]\<rparr>,
            [Request_reuse (cookie req), Queue_request (cookie req) (queue_ret c req)])))"
  by (simp add: queue_request_def num_buffers_def reuse_def Let_def)

theorem queue_request_checked_witness:
  "num_buffers (opened example_camera) = 2 \<and>
   queue_request (opened example_camera) 2 = (Threw Out_of_range, opened example_camera, []) \<and>
   fst (queue_request (opened queue_fails_camera) 0) = Returned (- 16) \<and>
   snd (snd (queue_request (opened queue_fails_camera) 0)) =
     [Request_reuse 0, Queue_request 0 (- 16)] \<and>
   fst (queue_request (opened example_camera) 1) = Returned 0 \<and>
   snd (snd (queue_request (opened example_camera) 1)) = [Request_reuse 1, Queue_request 1 0]"
proof -
  have n: "num_buffers (opened example_camera) = 2"
    by (simp add: num_buffers_def eval_defs)
  have n': "num_buffers (opened queue_fails_camera) = 2"
    by (simp add: num_buffers_def eval_defs queue_fails_camera_def)
  have c: "camera (opened example_camera) = Some example_camera"
    by (simp add: eval_defs)
  have c': "camera (opened queue_fails_camera) = Some queue_fails_camera"
    by (simp add: eval_defs queue_fails_camera_def)
  have r: "requests (opened example_camera) ! 1 =
             \<lparr>cookie = 1, status = RequestPending,
              bound_buffers = [(0, example_planes 460800)]\<rparr>"
    by (simp add: eval_defs)
  have r': "requests (opened queue_fails_camera) ! 0 =
             \<lparr>cookie = 0, status = RequestPending, bound_buffers = [(0, example_planes 0)]\<rparr>"
    by (simp add: eval_defs queue_fails_camera_def)
  show ?thesis
    using queue_request_checked [of "opened example_camera" 2 example_camera]
      queue_request_checked [of "opened queue_fails_camera" 0 queue_fails_camera]
      queue_request_checked [of "opened example_camera" 1 example_camera]
      n n' c c' r r'
    by (simp add: Let_def queue_fails_camera_def example_camera_def)
qed

subsection \<open>C8: the frame format is that of the validated stream, and fixed\<close>

text \<open>
  C8: after \<^verbatim>\<open>open_camera\<close> has returned 0, the stored configuration is the one that the two
  validations produced from the configuration asked for, and \<^verbatim>\<open>frame_format\<close> returns the
  width, height and stride of its stream 0. When the validations have left the size of
  stream 0 as it was asked for, these are the width and height passed to \<^verbatim>\<open>open_camera\<close>.
  No sequence of \<^verbatim>\<open>start_camera\<close> and \<^verbatim>\<open>queue_request\<close> calls changes the stored
  configuration or what \<^verbatim>\<open>frame_format\<close> returns.
\<close>

theorem frame_format_fixed:
  assumes "open_camera cm w h handle s0 = (Returned 0, s, tr)"
  shows "\<exists>c cs conf sensor_size visible rest.
           cameras cm = c # cs \<and> generated c = Some conf \<and> 2 \<le> length conf \<and>
           pixel_array_size c = Some sensor_size \<and>
           validate c (validate c (requested_configuration conf w h sensor_size)) = visible # rest \<and>
           config s = Some (visible # rest) \<and>
           frame_format s =
             Returned \<lparr>width = size_width (size_cfg visible),
                       height = size_height (size_cfg visible),
                       stride = stride_cfg visible\<rparr> \<and>
           (size_cfg (hd (validate c (validate c (requested_configuration conf w h sensor_size)))) =
              size_cfg (hd (requested_configuration conf w h sensor_size)) \<longrightarrow>
              frame_format s = Returned \<lparr>width = w, height = h, stride = stride_cfg visible\<rparr>) \<and>
           (\<forall>calls. config (run calls s) = config s \<and>
                    frame_format (run calls s) = frame_format s)"
proof -
  from open_camera_success [OF assms] obtain c cs conf sensor_size streamConfig rest reqs where
    facts: "cameras cm = c # cs" "generated c = Some conf" "2 \<le> length conf"
      "pixel_array_size c = Some sensor_size"
      "validate c (validate c (requested_configuration conf w h sensor_size)) = streamConfig # rest"
    and s: "s = s0\<lparr>callback_handle := handle, cam_manager := Some cm, camera := Some c,
                  allocator := Some \<lparr>alloc_stream = stream_cfg streamConfig,
                                     alloc_buffers = allocated c (stream_cfg streamConfig)\<rparr>,
                  config := Some (streamConfig # rest), requests := reqs\<rparr>"
    by blast
  have cfg: "config s = Some (streamConfig # rest)"
    by (simp add: s)
  have ff: "frame_format s =
             Returned \<lparr>width = size_width (size_cfg streamConfig),
                       height = size_height (size_cfg streamConfig),
                       stride = stride_cfg streamConfig\<rparr>"
    by (simp add: frame_format_def cfg)
  have requested: "size_cfg (hd (requested_configuration conf w h sensor_size)) =
      \<lparr>size_width = w, size_height = h\<rparr>"
    using facts(3) by (rule requested_configuration_size)
  have same: "size_cfg (hd (validate c (validate c (requested_configuration conf w h sensor_size)))) =
              size_cfg (hd (requested_configuration conf w h sensor_size)) \<longrightarrow>
      frame_format s = Returned \<lparr>width = w, height = h, stride = stride_cfg streamConfig\<rparr>"
    by (simp add: ff facts(5) requested)
  have fixed: "\<forall>calls. config (run calls s) = config s \<and>
                    frame_format (run calls s) = frame_format s"
    using frame_format_config [OF config_run] by (simp add: config_run)
  from facts cfg ff same fixed show ?thesis
    by (intro exI conjI)
qed

theorem frame_format_fixed_witness:
  "open_camera (example_manager example_camera) 640 480 7 closed_session =
     (Returned 0, opened example_camera,
      [Manager_start 0, Camera_acquire 0, Generate_configuration, Validate, Validate,
       Camera_configure 0, Allocate 0 2, Create_request 0 True, Add_buffer 0 0,
       Create_request 1 True, Add_buffer 1 0, Connect_request_completed]) \<and>
   frame_format (opened example_camera) = Returned \<lparr>width = 640, height = 480, stride = 640\<rparr> \<and>
   frame_format (run [Start 640 480, Queue 0, Queue 1, Queue 2, Start 320 240]
                   (opened example_camera)) =
     Returned \<lparr>width = 640, height = 480, stride = 640\<rparr>"
proof -
  have opn: "open_camera (example_manager example_camera) 640 480 7 closed_session =
     (Returned 0, opened example_camera,
      [Manager_start 0, Camera_acquire 0, Generate_configuration, Validate, Validate,
       Camera_configure 0, Allocate 0 2, Create_request 0 True, Add_buffer 0 0,
       Create_request 1 True, Add_buffer 1 0, Connect_request_completed])"
    by (simp add: eval_defs)
  from frame_format_fixed [OF opn] obtain c cs conf sensor_size visible rest where
    cams: "cameras (example_manager example_camera) = c # cs"
    and gen: "generated c = Some conf" and pas: "pixel_array_size c = Some sensor_size"
    and val: "validate c (validate c (requested_configuration conf 640 480 sensor_size)) = visible # rest"
    and same: "size_cfg (hd (validate c (validate c (requested_configuration conf 640 480 sensor_size)))) =
                 size_cfg (hd (requested_configuration conf 640 480 sensor_size)) \<longrightarrow>
               frame_format (opened example_camera) =
                 Returned \<lparr>width = 640, height = 480, stride = stride_cfg visible\<rparr>"
    and fixed: "\<forall>calls. config (run calls (opened example_camera)) = config (opened example_camera) \<and>
                    frame_format (run calls (opened example_camera)) = frame_format (opened example_camera)"
    by blast
  from cams have c: "c = example_camera"
    by (simp add: example_manager_def)
  from gen have conf: "conf = [example_stream_configuration, example_stream_configuration]"
    unfolding c by (simp add: example_camera_def)
  from pas have sensor: "sensor_size = \<lparr>size_width = 3280, size_height = 2464\<rparr>"
    unfolding c by (simp add: example_camera_def)
  have unchanged:
    "size_cfg (hd (validate c (validate c (requested_configuration conf 640 480 sensor_size)))) =
       size_cfg (hd (requested_configuration conf 640 480 sensor_size))"
    unfolding c conf sensor by (simp add: example_defs)
  from val have stride: "stride_cfg visible = 640"
    unfolding c conf sensor by (auto simp add: example_defs)
  from same unchanged stride have now: "frame_format (opened example_camera) =
      Returned \<lparr>width = 640, height = 480, stride = 640\<rparr>"
    by simp
  from fixed have later:
    "frame_format (run [Start 640 480, Queue 0, Queue 1, Queue 2, Start 320 240]
                     (opened example_camera)) = frame_format (opened example_camera)"
    by blast
  from opn now later show ?thesis
    by (simp only:)
qed

subsection \<open>C9: open_camera needs the pixel-array size\<close>

text \<open>
  C9: \<^verbatim>\<open>open_camera\<close> reads the \<^verbatim>\<open>PixelArraySize\<close> property with \<^verbatim>\<open>value()\<close>. A call that
  returns 0 was made on a device that has the property. On a device without it, a call that
  gets as far as the generated configuration leaves with \<^verbatim>\<open>std::bad_optional_access\<close>: no
  status is returned, and neither the device nor the manager is given back. In contrast,
  \<^verbatim>\<open>start_camera\<close> returns on such a device.
\<close>

theorem open_camera_requires_pixel_array_size:
  "(open_camera cm w h handle s = (Returned 0, s', tr) \<longrightarrow>
      (\<exists>c cs sensor_size. cameras cm = c # cs \<and> pixel_array_size c = Some sensor_size)) \<and>
   (manager_start_ret cm = 0 \<and> cameras cm = c # cs \<and> acquire_ret c = 0 \<and>
    generated c = Some conf \<and> 2 \<le> length conf \<and> pixel_array_size c = None \<longrightarrow>
      open_camera cm w h handle s =
        (Threw Bad_optional_access, s,
         [Manager_start 0, Camera_acquire 0, Generate_configuration])) \<and>
   (camera s = Some c \<and> pixel_array_size c = None \<longrightarrow>
      (\<exists>r tr'. start_camera s w h = (Returned r, s, tr')))"
proof (intro conjI impI)
  assume "open_camera cm w h handle s = (Returned 0, s', tr)"
  from open_camera_success [OF this]
  show "\<exists>c cs sensor_size. cameras cm = c # cs \<and> pixel_array_size c = Some sensor_size"
    by blast
next
  assume a: "manager_start_ret cm = 0 \<and> cameras cm = c # cs \<and> acquire_ret c = 0 \<and>
    generated c = Some conf \<and> 2 \<le> length conf \<and> pixel_array_size c = None"
  then have "get_camera cm (cam_id (cameras cm ! 0)) = Some c"
    using get_camera_first by blast
  with a show "open_camera cm w h handle s =
        (Threw Bad_optional_access, s,
         [Manager_start 0, Camera_acquire 0, Generate_configuration])"
    by (simp add: open_camera_def Let_def)
next
  assume "camera s = Some c \<and> pixel_array_size c = None"
  then show "\<exists>r tr'. start_camera s w h = (Returned r, s, tr')"
    by (simp add: start_camera_def Let_def split: prod.splits)
qed

theorem open_camera_requires_pixel_array_size_witness:
  "open_camera (example_manager no_size_camera) 640 480 7 closed_session =
     (Threw Bad_optional_access, closed_session,
      [Manager_start 0, Camera_acquire 0, Generate_configuration]) \<and>
   (\<exists>c cs sensor_size. cameras (example_manager example_camera) = c # cs \<and>
      pixel_array_size c = Some sensor_size) \<and>
   (\<exists>r tr'. start_camera ((opened example_camera)\<lparr>camera := Some no_size_camera\<rparr>) 640 480 =
      (Returned r, (opened example_camera)\<lparr>camera := Some no_size_camera\<rparr>, tr'))"
proof -
  have opn: "open_camera (example_manager example_camera) 640 480 7 closed_session =
     (Returned 0, opened example_camera,
      snd (snd (open_camera (example_manager example_camera) 640 480 7 closed_session)))"
    by (simp add: eval_defs)
  have stack: "manager_start_ret (example_manager no_size_camera) = 0 \<and>
      cameras (example_manager no_size_camera) = no_size_camera # [] \<and>
      acquire_ret no_size_camera = 0 \<and>
      generated no_size_camera = Some [example_stream_configuration, example_stream_configuration] \<and>
      2 \<le> length [example_stream_configuration, example_stream_configuration] \<and>
      pixel_array_size no_size_camera = None"
    by (simp add: example_manager_def no_size_camera_def example_camera_def)
  have cam: "camera ((opened example_camera)\<lparr>camera := Some no_size_camera\<rparr>) = Some no_size_camera \<and>
      pixel_array_size no_size_camera = None"
    by (simp add: no_size_camera_def)
  show ?thesis
    using open_camera_requires_pixel_array_size
        [of "example_manager example_camera" 640 480 7 closed_session "opened example_camera"
            "snd (snd (open_camera (example_manager example_camera) 640 480 7 closed_session))"
            example_camera "[]" "[]"]
      open_camera_requires_pixel_array_size
        [of "example_manager no_size_camera" 640 480 7 closed_session _ _ no_size_camera "[]"
            "[example_stream_configuration, example_stream_configuration]"]
      open_camera_requires_pixel_array_size
        [of _ 640 480 _ "(opened example_camera)\<lparr>camera := Some no_size_camera\<rparr>" _ _
            no_size_camera]
      opn stack cam
    by blast
qed

subsection \<open>C10: buffer_at does not check its index\<close>

text \<open>
  C10: after a successful \<^verbatim>\<open>open_camera\<close> there are as many buffers as requests. For an
  index that is not below \<^verbatim>\<open>num_buffers()\<close>, \<^verbatim>\<open>buffer_at\<close> reads past the end of the
  allocator's buffer list with \<^verbatim>\<open>operator[]\<close>, where \<^verbatim>\<open>queue_request\<close> throws
  \<^verbatim>\<open>std::out_of_range\<close>. For an index below it, the read is within the list and the result
  is the descriptor of that buffer.
\<close>

theorem buffer_at_unchecked:
  assumes "open_camera cm w h handle s0 = (Returned 0, s, tr)"
  shows "(num_buffers s \<le> idx \<longrightarrow>
            buffer_at s idx = Undefined Index_out_of_bounds \<and>
            fst (queue_request s idx) = Threw Out_of_range) \<and>
         (idx < num_buffers s \<longrightarrow>
            (\<exists>a. allocator s = Some a \<and> idx < length (alloc_buffers a) \<and>
                 buffer_at s idx = describe_buffer (alloc_buffers a ! idx)))"
proof -
  from open_camera_success [OF assms] obtain c streamConfig rest reqs where
    len: "length reqs = length (allocated c (stream_cfg streamConfig))"
    and s: "s = s0\<lparr>callback_handle := handle, cam_manager := Some cm, camera := Some c,
                  allocator := Some \<lparr>alloc_stream = stream_cfg streamConfig,
                                     alloc_buffers = allocated c (stream_cfg streamConfig)\<rparr>,
                  config := Some (streamConfig # rest), requests := reqs\<rparr>"
    by blast
  show ?thesis
    using len
    by (simp add: s num_buffers_def buffer_at_def buffers_def queue_request_def)
qed

theorem buffer_at_unchecked_witness:
  "num_buffers (opened example_camera) = 2 \<and>
   buffer_at (opened example_camera) 2 = Undefined Index_out_of_bounds \<and>
   fst (queue_request (opened example_camera) 2) = Threw Out_of_range \<and>
   buffer_at (opened example_camera) 0 = describe_buffer (example_planes 0)"
proof -
  have opn: "open_camera (example_manager example_camera) 640 480 7 closed_session =
     (Returned 0, opened example_camera,
      snd (snd (open_camera (example_manager example_camera) 640 480 7 closed_session)))"
    by (simp add: eval_defs)
  have n: "num_buffers (opened example_camera) = 2"
    by (simp add: num_buffers_def eval_defs)
  have a: "allocator (opened example_camera) =
             Some \<lparr>alloc_stream = 0, alloc_buffers = [example_planes 0, example_planes 460800]\<rparr>"
    by (simp add: eval_defs)
  show ?thesis
    using buffer_at_unchecked [OF opn, of 2] buffer_at_unchecked [OF opn, of 0] n a
    by auto
qed

end
